theory Spec2Isabelle
  imports Complex_Main "HOL-Library.Word" "HOL-Library.Signed_Division"
begin

unbundle bit_operations_syntax

section \<open>Machine types\<close>

text \<open>
  The facade is C++ behind a C interface.  \<open>int\<close> and \<open>int32_t\<close> are 32-bit two's
  complement integers: a \<open>32 word\<close>, read with \<open>sint\<close> and compared with \<open><s\<close> and
  \<open>\<le>s\<close>; arithmetic on them wraps around.  A \<open>float\<close> is an IEEE-754 binary32 value,
  kept as its 32-bit pattern.  A handle is a pointer that may be \<open>nullptr\<close>: an
  \<open>option\<close>, with \<open>None\<close> for the absent handle.
\<close>

type_synonym int32 = "32 word"
type_synonym float = "32 word"

text \<open>What the C++ leaves undefined is a value of its own in the model.\<close>

datatype fault = OutOfBoundsRead | OutOfBoundsWrite | UnrepresentableConversion

text \<open>A fault ends the computation: what follows runs only on a result.\<close>

definition bind_fault :: "fault + 'a \<Rightarrow> ('a \<Rightarrow> fault + 'b) \<Rightarrow> fault + 'b" where
  "bind_fault m f = (case m of Inl e \<Rightarrow> Inl e | Inr v \<Rightarrow> f v)"

section \<open>Memory arena\<close>

text \<open>
  \<open>struct Block\<close>: the capacity of the buffer and its high-water mark.  The buffer
  itself (\<open>memory\<close>) holds the arrays of the render commands, which the model keeps
  as lists inside the commands; only the bookkeeping of the arena is threaded.
\<close>

record Block =
  size_b :: int32
  allocated :: int32

definition Block_free :: "Block \<Rightarrow> int32" where
  "Block_free blk = size_b blk - allocated blk"

definition Block_canFit :: "Block \<Rightarrow> int32 \<Rightarrow> bool" where
  "Block_canFit blk numBytes \<longleftrightarrow> numBytes \<le>s Block_free blk"

text \<open>
  \<open>Block::allocate\<close> zero-fills \<open>numBytes\<close> bytes of the buffer from the mark on
  (\<open>memset(memory + allocated, 0, numBytes)\<close>) and moves the mark.  The byte count
  reaches \<open>memset\<close> as a \<open>size_t\<close>: a negative count, or one that runs past the
  \<open>size\<close> bytes of the buffer, writes outside the buffer.
\<close>

definition Block_allocate :: "Block \<Rightarrow> int32 \<Rightarrow> fault + Block" where
  "Block_allocate blk numBytes =
     (if 0 \<le> sint numBytes \<and> 0 \<le> sint (allocated blk) \<and>
         sint (allocated blk) + sint numBytes \<le> sint (size_b blk)
      then Inr (blk\<lparr>allocated := allocated blk + numBytes\<rparr>)
      else Inl OutOfBoundsWrite)"

record BlockAllocator =
  initialBlockSize :: int32
  blocks :: "Block list"

text \<open>
  Modelled from the spec: \<open>MathUtil::max\<close> of the runtime library, which is not
  part of the facade.  The specification sizes a block as
  \<open>max(initialBlockSize, alignedRequestSize)\<close>, "the initial size if larger": the
  larger of two \<open>int\<close>s.
\<close>

definition MathUtil_max :: "int32 \<Rightarrow> int32 \<Rightarrow> int32" where
  "MathUtil_max a b = (if b <s a then a else b)"

definition newBlock :: "BlockAllocator \<Rightarrow> int32 \<Rightarrow> Block" where
  "newBlock al numBytes =
     \<lparr>size_b = MathUtil_max (initialBlockSize al) numBytes, allocated = 0\<rparr>"

text \<open>The constructor: one block of the initial size.\<close>

definition BlockAllocator_new :: "int32 \<Rightarrow> BlockAllocator" where
  "BlockAllocator_new n =
     (let al = \<lparr>initialBlockSize = n, blocks = []\<rparr>
      in al\<lparr>blocks := [newBlock al n]\<rparr>)"

text \<open>
  The loop of \<open>compress\<close>: \<open>totalSize += blocks[i].size\<close> for every block in order
  (each block's buffer is released on the way).
\<close>

fun compress_loop :: "Block list \<Rightarrow> int32 \<Rightarrow> int32" where
  "compress_loop [] totalSize = totalSize"
| "compress_loop (blk # bs) totalSize = compress_loop bs (totalSize + size_b blk)"

definition compress :: "BlockAllocator \<Rightarrow> BlockAllocator" where
  "compress al =
     (let totalSize = compress_loop (blocks al) 0;
          cleared = al\<lparr>blocks := []\<rparr>
      in cleared\<lparr>blocks := blocks cleared @ [newBlock cleared totalSize]\<rparr>)"

text \<open>
  \<open>_allocate\<close>: the request is rounded up to a multiple of 16 (\<open>%\<close> truncates
  towards zero), served from the last block if it fits and from a new block otherwise.
  \<open>blocks[blocks.size() - 1]\<close> on an empty block list reads out of bounds.
\<close>

definition allocate_bytes :: "BlockAllocator \<Rightarrow> int32 \<Rightarrow> fault + BlockAllocator" where
  "allocate_bytes al numBytes =
     (let m = word_of_int (sint numBytes smod 16) :: int32;
          alignedNumBytes = numBytes + (if m \<noteq> 0 then 16 - m else 0)
      in if blocks al = [] then Inl OutOfBoundsRead
         else if \<not> Block_canFit (last (blocks al)) alignedNumBytes
         then bind_fault
                (Block_allocate
                   (newBlock al (MathUtil_max (initialBlockSize al) alignedNumBytes))
                   alignedNumBytes)
                (\<lambda>blk. Inr (al\<lparr>blocks := blocks al @ [blk]\<rparr>))
         else bind_fault (Block_allocate (last (blocks al)) alignedNumBytes)
                (\<lambda>blk. Inr (al\<lparr>blocks := butlast (blocks al) @ [blk]\<rparr>)))"

text \<open>
  \<open>allocate<T>(num)\<close>: \<open>(int) (sizeof(T) * num)\<close>.  The product is taken in
  \<open>size_t\<close> and cut to an \<open>int\<close>, which keeps its low 32 bits whatever the width of
  \<open>size_t\<close>.
\<close>

definition allocate :: "nat \<Rightarrow> int32 \<Rightarrow> BlockAllocator \<Rightarrow> fault + BlockAllocator" where
  "allocate sizeof_T num al = allocate_bytes al (word_of_nat sizeof_T * num)"

section \<open>Process-wide state and primitive views\<close>

text \<open>
  \<open>Bone::setYDown\<close> and \<open>Bone::isYDown\<close> write and read one static flag of the
  runtime library, shared by the whole process.
\<close>

record process_state =
  yDown :: bool

definition Bone_setYDown :: "bool \<Rightarrow> process_state \<Rightarrow> process_state" where
  "Bone_setYDown v ps = ps\<lparr>yDown := v\<rparr>"

definition Bone_isYDown :: "process_state \<Rightarrow> bool" where
  "Bone_isYDown ps = yDown ps"

definition spine_bone_set_is_y_down :: "int32 \<Rightarrow> process_state \<Rightarrow> process_state" where
  "spine_bone_set_is_y_down v ps = Bone_setYDown (v \<noteq> 0) ps"

definition spine_bone_get_is_y_down :: "process_state \<Rightarrow> int32" where
  "spine_bone_get_is_y_down ps = (if Bone_isYDown ps then - 1 else 0)"

text \<open>
  \<open>struct _spine_bounds\<close>.  \<open>malloc\<close> hands out memory that nobody has written: a
  field of such a struct has no determined value until it is assigned, which is
  \<open>None\<close> here.
\<close>

record spine_bounds =
  bounds_x :: "float option"
  bounds_y :: "float option"
  bounds_width :: "float option"
  bounds_height :: "float option"

definition malloc_spine_bounds :: spine_bounds where
  "malloc_spine_bounds =
     \<lparr>bounds_x = None, bounds_y = None, bounds_width = None, bounds_height = None\<rparr>"

text \<open>The accessors: \<open>0\<close> on an absent handle, the field otherwise.\<close>

definition spine_bounds_get_x :: "spine_bounds option \<Rightarrow> float option" where
  "spine_bounds_get_x bounds = (case bounds of None \<Rightarrow> Some 0 | Some b \<Rightarrow> bounds_x b)"

definition spine_bounds_get_y :: "spine_bounds option \<Rightarrow> float option" where
  "spine_bounds_get_y bounds = (case bounds of None \<Rightarrow> Some 0 | Some b \<Rightarrow> bounds_y b)"

definition spine_bounds_get_width :: "spine_bounds option \<Rightarrow> float option" where
  "spine_bounds_get_width bounds =
     (case bounds of None \<Rightarrow> Some 0 | Some b \<Rightarrow> bounds_width b)"

definition spine_bounds_get_height :: "spine_bounds option \<Rightarrow> float option" where
  "spine_bounds_get_height bounds =
     (case bounds of None \<Rightarrow> Some 0 | Some b \<Rightarrow> bounds_height b)"

section \<open>Atlas\<close>

text \<open>
  \<open>struct _spine_atlas\<close>: the parsed atlas of the runtime (a \<open>void *\<close>, possibly
  absent), the array of page paths with its length, and the error text.
\<close>

record 'atlas spine_atlas =
  atlas :: "'atlas option"
  imagePaths :: "string list"
  numImagePaths :: int32
  atlas_error :: "string option"

definition spine_atlas_get_num_image_paths :: "'atlas spine_atlas option \<Rightarrow> int32" where
  "spine_atlas_get_num_image_paths a =
     (case a of None \<Rightarrow> 0 | Some r \<Rightarrow> numImagePaths r)"

text \<open>
  \<open>imagePaths[index]\<close> is a plain array read: the function tests the handle and
  nothing else, so an index that is not a position of the array reads outside it.
\<close>

definition spine_atlas_get_image_path ::
  "'atlas spine_atlas option \<Rightarrow> int32 \<Rightarrow> fault + string option" where
  "spine_atlas_get_image_path a index =
     (case a of
        None \<Rightarrow> Inr None
      | Some r \<Rightarrow>
          if 0 \<le> sint index \<and> nat (sint index) < length (imagePaths r)
          then Inr (Some (imagePaths r ! nat (sint index)))
          else Inl OutOfBoundsRead)"

definition spine_atlas_get_error :: "'atlas spine_atlas option \<Rightarrow> string option" where
  "spine_atlas_get_error a = (case a of None \<Rightarrow> None | Some r \<Rightarrow> atlas_error r)"

section \<open>Skeleton data loaders\<close>

text \<open>
  \<open>struct _spine_skeleton_data_result\<close>, allocated with \<open>calloc\<close>: both fields
  start absent.
\<close>

record 'sd spine_skeleton_data_result =
  skeletonData :: "'sd option"
  error :: "string option"

definition calloc_skeleton_data_result :: "'sd spine_skeleton_data_result" where
  "calloc_skeleton_data_result = \<lparr>skeletonData = None, error = None\<rparr>"

text \<open>
  The deserialisers (\<open>SkeletonJson\<close>, \<open>SkeletonBinary\<close>) belong to the runtime
  library and are parameters: \<open>readSkeletonData\<close> gives the skeleton data it built,
  if any, together with the text of \<open>getError()\<close>, empty when nothing went wrong.
\<close>

definition spine_skeleton_data_load_json ::
  "('atlas \<Rightarrow> string \<Rightarrow> 'sd option \<times> string) \<Rightarrow> process_state \<Rightarrow>
   'atlas spine_atlas option \<Rightarrow> string option \<Rightarrow>
   process_state \<times> 'sd spine_skeleton_data_result option" where
  "spine_skeleton_data_load_json readSkeletonData ps a skelData =
     (let result = calloc_skeleton_data_result;
          ps' = Bone_setYDown True ps
      in case a of
           None \<Rightarrow> (ps', Some result)
         | Some r \<Rightarrow>
             (case atlas r of
                None \<Rightarrow> (ps', Some result)
              | Some parsed \<Rightarrow>
                  (case skelData of
                     None \<Rightarrow> (ps', Some result)
                   | Some txt \<Rightarrow>
                       (let (dat, err) = readSkeletonData parsed txt;
                            result = result\<lparr>skeletonData := dat\<rparr>
                        in (ps', Some (if err \<noteq> [] then result\<lparr>error := Some err\<rparr>
                                       else result))))))"

definition spine_skeleton_data_load_binary ::
  "('atlas \<Rightarrow> 8 word list \<Rightarrow> int32 \<Rightarrow> 'sd option \<times> string) \<Rightarrow> process_state \<Rightarrow>
   'atlas spine_atlas option \<Rightarrow> 8 word list option \<Rightarrow> int32 \<Rightarrow>
   process_state \<times> 'sd spine_skeleton_data_result option" where
  "spine_skeleton_data_load_binary readSkeletonData ps a skelData len =
     (let result = calloc_skeleton_data_result;
          ps' = Bone_setYDown True ps
      in case a of
           None \<Rightarrow> (ps', Some result)
         | Some r \<Rightarrow>
             (case atlas r of
                None \<Rightarrow> (ps', Some result)
              | Some parsed \<Rightarrow>
                  (case skelData of
                     None \<Rightarrow> (ps', Some result)
                   | Some bytes \<Rightarrow>
                       if len \<le>s 0 then (ps', Some result)
                       else
                         (let (dat, err) = readSkeletonData parsed bytes len;
                              result = result\<lparr>skeletonData := dat\<rparr>
                          in (ps', Some (if err \<noteq> [] then result\<lparr>error := Some err\<rparr>
                                         else result))))))"

definition spine_skeleton_data_result_get_error ::
  "'sd spine_skeleton_data_result option \<Rightarrow> string option" where
  "spine_skeleton_data_result_get_error res =
     (case res of None \<Rightarrow> None | Some r \<Rightarrow> error r)"

definition spine_skeleton_data_result_get_data ::
  "'sd spine_skeleton_data_result option \<Rightarrow> 'sd option" where
  "spine_skeleton_data_result_get_data res =
     (case res of None \<Rightarrow> None | Some r \<Rightarrow> skeletonData r)"

section \<open>Event buffer\<close>

text \<open>
  Modelled from the spec: the two enumerations of event kinds, which are declared in
  headers outside the facade's source file.  The kinds form a closed set: start,
  interrupt, end, complete, dispose and user-authored event.  \<open>EventType\<close> is the
  runtime's enumeration and \<open>spine_event_type\<close> that of the C interface; the
  facade casts one to the other, kind for kind.
\<close>

datatype EventType =
  EventType_Start | EventType_Interrupt | EventType_End
| EventType_Complete | EventType_Dispose | EventType_Event

datatype spine_event_type =
  SPINE_EVENT_TYPE_START | SPINE_EVENT_TYPE_INTERRUPT | SPINE_EVENT_TYPE_END
| SPINE_EVENT_TYPE_COMPLETE | SPINE_EVENT_TYPE_DISPOSE | SPINE_EVENT_TYPE_EVENT

fun cast_spine_event_type :: "EventType \<Rightarrow> spine_event_type" where
  "cast_spine_event_type EventType_Start = SPINE_EVENT_TYPE_START"
| "cast_spine_event_type EventType_Interrupt = SPINE_EVENT_TYPE_INTERRUPT"
| "cast_spine_event_type EventType_End = SPINE_EVENT_TYPE_END"
| "cast_spine_event_type EventType_Complete = SPINE_EVENT_TYPE_COMPLETE"
| "cast_spine_event_type EventType_Dispose = SPINE_EVENT_TYPE_DISPOSE"
| "cast_spine_event_type EventType_Event = SPINE_EVENT_TYPE_EVENT"

record ('te, 'ev) AnimationStateEvent =
  type :: EventType
  entry :: "'te option"
  event :: "'ev option"

record ('te, 'ev) EventListener =
  events :: "('te, 'ev) AnimationStateEvent list"

definition callback ::
  "('te, 'ev) EventListener \<Rightarrow> EventType \<Rightarrow> 'te option \<Rightarrow> 'ev option \<Rightarrow>
   ('te, 'ev) EventListener" where
  "callback l t e ev = l\<lparr>events := events l @ [\<lparr>type = t, entry = e, event = ev\<rparr>]\<rparr>"

text \<open>\<open>Vector::operator[]\<close>: a read at a position the vector does not have is a fault.\<close>

definition Vector_at :: "'a list \<Rightarrow> nat \<Rightarrow> fault + 'a" where
  "Vector_at xs i = (if i < length xs then Inr (xs ! i) else Inl OutOfBoundsRead)"

definition spine_animation_state_events_get_num_events ::
  "('te, 'ev) EventListener option \<Rightarrow> int32" where
  "spine_animation_state_events_get_num_events evs =
     (case evs of None \<Rightarrow> 0 | Some l \<Rightarrow> word_of_nat (length (events l)))"

text \<open>
  In \<open>index >= events.size()\<close> the index, known not to be negative at that point,
  is converted to \<open>size_t\<close> and compared unsigned.
\<close>

definition spine_animation_state_events_get_event_type ::
  "('te, 'ev) EventListener option \<Rightarrow> int32 \<Rightarrow> fault + spine_event_type" where
  "spine_animation_state_events_get_event_type evs index =
     (case evs of
        None \<Rightarrow> Inr SPINE_EVENT_TYPE_DISPOSE
      | Some l \<Rightarrow>
          if index <s 0 then Inr SPINE_EVENT_TYPE_DISPOSE
          else if length (events l) \<le> nat (sint index) then Inr SPINE_EVENT_TYPE_DISPOSE
          else (case Vector_at (events l) (nat (sint index)) of
                  Inl f \<Rightarrow> Inl f
                | Inr e \<Rightarrow> Inr (cast_spine_event_type (type e))))"

section \<open>Skeleton and bone facades\<close>

text \<open>
  \<open>Skeleton::getBounds\<close> is the runtime's and a parameter: it assigns the four
  outputs.  The struct that receives them comes from \<open>malloc\<close>.
\<close>

definition spine_skeleton_get_bounds ::
  "('skel \<Rightarrow> float \<times> float \<times> float \<times> float) \<Rightarrow> 'skel option \<Rightarrow> spine_bounds option" where
  "spine_skeleton_get_bounds getBounds skeleton =
     (let bounds = malloc_spine_bounds
      in case skeleton of
           None \<Rightarrow> Some bounds
         | Some s \<Rightarrow>
             (let (bx, by, bw, bh) = getBounds s
              in Some (bounds\<lparr>bounds_x := Some bx, bounds_y := Some by,
                               bounds_width := Some bw, bounds_height := Some bh\<rparr>)))"

text \<open>
  The methods of the runtime's \<open>Bone\<close> that the world-rotation accessors call, as
  parameters: each gives a \<open>float\<close> for a bone.
\<close>

record 'bone Bone_methods =
  getWorldRotationX :: "'bone \<Rightarrow> float"
  getWorldRotationY :: "'bone \<Rightarrow> float"
  getWorldToLocalRotationX :: "'bone \<Rightarrow> float"
  getWorldToLocalRotationY :: "'bone \<Rightarrow> float"

definition spine_bone_get_world_rotation_x ::
  "'bone Bone_methods \<Rightarrow> 'bone option \<Rightarrow> float" where
  "spine_bone_get_world_rotation_x M bone =
     (case bone of None \<Rightarrow> 0 | Some b \<Rightarrow> getWorldRotationX M b)"

definition spine_bone_get_world_rotation_y ::
  "'bone Bone_methods \<Rightarrow> 'bone option \<Rightarrow> float" where
  "spine_bone_get_world_rotation_y M bone =
     (case bone of None \<Rightarrow> 0 | Some b \<Rightarrow> getWorldToLocalRotationY M b)"

section \<open>Skin entries\<close>

text \<open>
  Modelled from the spec: the enumeration of a skin's attachments, which the runtime
  library implements (\<open>Skin::AttachmentMap::Entries\<close>, not part of the facade).  A
  skin stores (slot index, attachment name, attachment) triples and enumerates them
  in a fixed order; \<open>hasNext()\<close> tells whether a triple is left and consumes
  nothing, \<open>next()\<close> returns the next triple and moves past it.  The facade calls
  \<open>next()\<close> only after \<open>hasNext()\<close> has answered yes.
\<close>

record 'att Entry =
  Entry_slotIndex :: nat
  Entry_name :: string
  Entry_attachment :: "'att option"

record 'att Skin =
  attachments :: "'att Entry list"

record 'att Entries =
  remaining :: "'att Entry list"

definition getAttachments :: "'att Skin \<Rightarrow> 'att Entries" where
  "getAttachments skin = \<lparr>remaining = attachments skin\<rparr>"

definition hasNext :: "'att Entries \<Rightarrow> bool" where
  "hasNext mapEntries \<longleftrightarrow> remaining mapEntries \<noteq> []"

definition next_entry :: "'att Entries \<Rightarrow> 'att Entry \<times> 'att Entries" where
  "next_entry mapEntries =
     (hd (remaining mapEntries), mapEntries\<lparr>remaining := tl (remaining mapEntries)\<rparr>)"

text \<open>\<open>struct _spine_skin_entry\<close> and \<open>struct _spine_skin_entries\<close>.\<close>

record 'att spine_skin_entry =
  slotIndex :: int32
  name :: "string option"
  attachment :: "'att option"

record 'att spine_skin_entries =
  numEntries :: int32
  entries :: "'att spine_skin_entry list"

definition calloc_skin_entry :: "'att spine_skin_entry" where
  "calloc_skin_entry = \<lparr>slotIndex = 0, name = None, attachment = None\<rparr>"

text \<open>
  The first loop of \<open>spine_skin_get_entries\<close>:
  \<open>while (mapEntries.hasNext()) entries->numEntries++;\<close>.  The loop may run forever,
  so it is a partial function: \<open>None\<close> is the run that never leaves the loop.
\<close>

partial_function (option) count_entries :: "'att Entries \<Rightarrow> int32 \<Rightarrow> int32 option" where
  "count_entries mapEntries n =
     (if hasNext mapEntries then count_entries mapEntries (n + 1) else Some n)"

text \<open>
  The second loop: \<open>entries->entries[i++] = {slotIndex, name, attachment}\<close> for each
  triple that \<open>next()\<close> returns.  A write past the allocated array is a fault.
\<close>

function fill_entries ::
  "'att Entries \<Rightarrow> int32 \<Rightarrow> 'att spine_skin_entry list \<Rightarrow> fault + 'att spine_skin_entry list" where
  "fill_entries mapEntries i arr =
     (if hasNext mapEntries
      then (let (e, rest) = next_entry mapEntries
            in if 0 \<le> sint i \<and> nat (sint i) < length arr
               then fill_entries rest (i + 1)
                      (arr[nat (sint i) :=
                             \<lparr>slotIndex = word_of_nat (Entry_slotIndex e),
                              name = Some (Entry_name e),
                              attachment = Entry_attachment e\<rparr>])
               else Inl OutOfBoundsWrite)
      else Inr arr)"
  by pat_completeness auto
termination
  by (relation "measure (\<lambda>(mapEntries, i, arr). length (remaining mapEntries))")
    (auto simp add: hasNext_def next_entry_def)

text \<open>
  The result is \<open>None\<close> when the call does not return; otherwise a fault, or the
  handle returned (absent for an absent skin).
\<close>

definition spine_skin_get_entries ::
  "'att Skin option \<Rightarrow> (fault + 'att spine_skin_entries option) option" where
  "spine_skin_get_entries skin =
     (case skin of
        None \<Rightarrow> Some (Inr None)
      | Some s \<Rightarrow>
          (case count_entries (getAttachments s) 0 of
             None \<Rightarrow> None
           | Some n \<Rightarrow>
               (case fill_entries (getAttachments s) 0 (replicate (unat n) calloc_skin_entry) of
                  Inl f \<Rightarrow> Some (Inl f)
                | Inr arr \<Rightarrow> Some (Inr (Some \<lparr>numEntries = n, entries = arr\<rparr>)))))"

definition spine_skin_entries_get_num_entries :: "'att spine_skin_entries option \<Rightarrow> int32" where
  "spine_skin_entries_get_num_entries es = (case es of None \<Rightarrow> 0 | Some r \<Rightarrow> numEntries r)"

section \<open>Single-precision arithmetic\<close>

text \<open>
  The render loop multiplies \<open>float\<close>s, compares them with zero and converts them
  to \<open>uint8_t\<close>.  A \<open>float\<close> is an IEEE-754 binary32 value: one sign bit, eight
  exponent bits and 23 fraction bits.  A finite value is
  \<open>(-1)^sign * significand * 2^scale\<close> with the integers below; exponent 255 marks
  the infinities and the NaNs.
\<close>

definition float_sign :: "float \<Rightarrow> bool" where
  "float_sign f \<longleftrightarrow> bit f 31"

definition float_exponent :: "float \<Rightarrow> nat" where
  "float_exponent f = unat (take_bit 8 (drop_bit 23 f))"

definition float_fraction :: "float \<Rightarrow> nat" where
  "float_fraction f = unat (take_bit 23 f)"

definition float_significand :: "float \<Rightarrow> nat" where
  "float_significand f =
     (if float_exponent f = 0 then float_fraction f else 2 ^ 23 + float_fraction f)"

definition float_scale :: "float \<Rightarrow> int" where
  "float_scale f = (if float_exponent f = 0 then - 149 else int (float_exponent f) - 150)"

definition float_is_nan :: "float \<Rightarrow> bool" where
  "float_is_nan f \<longleftrightarrow> float_exponent f = 255 \<and> float_fraction f \<noteq> 0"

definition float_is_infinity :: "float \<Rightarrow> bool" where
  "float_is_infinity f \<longleftrightarrow> float_exponent f = 255 \<and> float_fraction f = 0"

text \<open>\<open>f == 0\<close>: true of both zeros, false of everything else.\<close>

definition float_eq_zero :: "float \<Rightarrow> bool" where
  "float_eq_zero f \<longleftrightarrow> float_exponent f = 0 \<and> float_fraction f = 0"

text \<open>The number of binary digits of a natural number.\<close>

fun bitlen :: "nat \<Rightarrow> nat" where
  "bitlen n = (if n = 0 then 0 else Suc (bitlen (n div 2)))"

declare bitlen.simps [simp del]

text \<open>
  \<open>float_round s m e\<close> is the binary32 value nearest to \<open>(-1)^s * m * 2^e\<close>, ties
  going to the even significand (the default rounding mode).  \<open>q\<close> is the scale of
  the result: 24 significant bits are kept, fewer below the smallest normal number.
  In the encoding the significand is added to the exponent field, so that a carry
  out of the significand moves to the next exponent; what reaches exponent 255 is an
  infinity.
\<close>

definition float_round :: "bool \<Rightarrow> nat \<Rightarrow> int \<Rightarrow> float" where
  "float_round s m e =
     (let sgn = (if s then 0x80000000 else 0) :: float;
          q = max (e + int (bitlen m) - 24) (- 149);
          k = nat (q - e);
          kept = (if q \<le> e then m * 2 ^ nat (e - q) else m div 2 ^ k);
          rest = (if q \<le> e then 0 else m mod 2 ^ k);
          half = (if q \<le> e then 1 else 2 ^ (k - 1));
          rounded = (if half < rest \<or> (rest = half \<and> odd kept) then kept + 1 else kept);
          magnitude = nat (q + 149) * 2 ^ 23 + rounded
      in if m = 0 then sgn
         else if 0x7F800000 \<le> magnitude then sgn + 0x7F800000
         else sgn + word_of_nat magnitude)"

definition float_of_nat :: "nat \<Rightarrow> float" where
  "float_of_nat n = float_round False n 0"

text \<open>
  The product of two \<open>float\<close>s: the exact product of the two values, rounded.  A NaN
  operand and \<open>infinity * 0\<close> give a NaN, an infinite operand otherwise an infinity.
  Which NaN comes out differs between processors and does not matter here: the
  products are only converted to \<open>uint8_t\<close>, which no NaN can be.
\<close>

definition float_mul :: "float \<Rightarrow> float \<Rightarrow> float" where
  "float_mul x y =
     (let s = (float_sign x \<noteq> float_sign y)
      in if float_is_nan x \<or> float_is_nan y then 0x7FC00000
         else if float_is_infinity x \<or> float_is_infinity y
         then (if float_eq_zero x \<or> float_eq_zero y then 0x7FC00000
               else (if s then 0xFF800000 else 0x7F800000))
         else float_round s (float_significand x * float_significand y)
                (float_scale x + float_scale y))"

text \<open>
  \<open>static_cast<uint8_t>(f)\<close> drops the fractional part.  The conversion is defined
  only if what is left fits the target: not for a NaN, an infinity, a value of 256
  or more, or a value of -1 or less.
\<close>

definition float_to_uint8 :: "float \<Rightarrow> fault + 8 word" where
  "float_to_uint8 f =
     (if float_exponent f = 255 then Inl UnrepresentableConversion
      else
        (let t = (if 0 \<le> float_scale f
                  then float_significand f * 2 ^ nat (float_scale f)
                  else float_significand f div 2 ^ nat (- float_scale f))
         in if t = 0 then Inr 0
            else if float_sign f \<or> 255 < t then Inl UnrepresentableConversion
            else Inr (word_of_nat t)))"



section \<open>Render commands\<close>

text \<open>
  \<open>Color\<close> of the runtime: four \<open>float\<close> channels \<open>r\<close>, \<open>g\<close>, \<open>b\<close>, \<open>a\<close>.
\<close>

record Color =
  Color_r :: float
  Color_g :: float
  Color_b :: float
  Color_a :: float

text \<open>
  Modelled from the spec: the blend modes, declared in headers outside the facade's
  source file, once as the runtime's \<open>BlendMode\<close> and once as the C interface's
  \<open>spine_blend_mode\<close>; the facade casts one to the other, mode for mode.
\<close>

datatype BlendMode =
  BlendMode_Normal | BlendMode_Additive | BlendMode_Multiply | BlendMode_Screen

datatype spine_blend_mode =
  SPINE_BLEND_MODE_NORMAL | SPINE_BLEND_MODE_ADDITIVE
| SPINE_BLEND_MODE_MULTIPLY | SPINE_BLEND_MODE_SCREEN

fun cast_spine_blend_mode :: "BlendMode \<Rightarrow> spine_blend_mode" where
  "cast_spine_blend_mode BlendMode_Normal = SPINE_BLEND_MODE_NORMAL"
| "cast_spine_blend_mode BlendMode_Additive = SPINE_BLEND_MODE_ADDITIVE"
| "cast_spine_blend_mode BlendMode_Multiply = SPINE_BLEND_MODE_MULTIPLY"
| "cast_spine_blend_mode BlendMode_Screen = SPINE_BLEND_MODE_SCREEN"

text \<open>
  \<open>struct _spine_render_command\<close>.  The arrays are lists; the \<open>next\<close> pointer is
  the order of the commands in the list that \<open>render\<close> returns.
\<close>

record spine_render_command =
  positions :: "float list"
  uvs :: "float list"
  colors :: "int32 list"
  numVertices :: int32
  indices :: "16 word list"
  numIndices :: int32
  atlasPage :: int32
  blendMode :: spine_blend_mode

text \<open>
  \<open>spine_render_command_create\<close>: five allocations from the arena, then the
  fields.  The arrays come zero-filled from the arena.  \<open>sizeof_cmd\<close> is
  \<open>sizeof(_spine_render_command)\<close>, which depends on the platform.
\<close>

definition spine_render_command_create ::
  "nat \<Rightarrow> BlockAllocator \<Rightarrow> int32 \<Rightarrow> int32 \<Rightarrow> spine_blend_mode \<Rightarrow> int32 \<Rightarrow>
   fault + BlockAllocator \<times> spine_render_command" where
  "spine_render_command_create sizeof_cmd al nVertices nIndices bm pageIndex =
     bind_fault (allocate sizeof_cmd 1 al) (\<lambda>al1.
     bind_fault (allocate 4 (push_bit 1 nVertices) al1) (\<lambda>al2.
     bind_fault (allocate 4 (push_bit 1 nVertices) al2) (\<lambda>al3.
     bind_fault (allocate 4 nVertices al3) (\<lambda>al4.
     bind_fault (allocate 2 nIndices al4) (\<lambda>al5.
       Inr (al5,
            \<lparr>positions = replicate (nat (sint (push_bit 1 nVertices :: int32))) 0,
             uvs = replicate (nat (sint (push_bit 1 nVertices :: int32))) 0,
             colors = replicate (nat (sint nVertices)) 0,
             numVertices = nVertices,
             indices = replicate (nat (sint nIndices)) 0,
             numIndices = nIndices,
             atlasPage = pageIndex,
             blendMode = bm\<rparr>))))))"

section \<open>Skeleton drawable\<close>

text \<open>
  What the render loop reads of the runtime's objects: of a slot its data (for the
  blend mode), its tint, whether its bone is active, and its attachment; of a
  region or mesh attachment the tint, the UVs, the triangles and the index of the
  atlas page of its texture region; of a clipping attachment the slot data where
  the clip ends.
\<close>

record SlotData =
  SlotData_index :: nat
  SlotData_blendMode :: BlendMode

record RegionAttachment =
  region_color :: Color
  region_uvs :: "float list"
  region_page_index :: int32

record MeshAttachment =
  mesh_color :: Color
  mesh_uvs :: "float list"
  mesh_triangles :: "16 word list"
  mesh_worldVerticesLength :: nat
  mesh_page_index :: int32

record ClippingAttachment =
  endSlot :: "SlotData option"

datatype Attachment =
  Region RegionAttachment
| Mesh MeshAttachment
| Clipping ClippingAttachment
| OtherAttachment

record Slot =
  slot_data :: SlotData
  slot_color :: Color
  slot_bone_active :: bool
  slot_attachment :: "Attachment option"

record Skeleton =
  slots :: "Slot list"
  drawOrder :: "Slot list"
  skeleton_color :: Color


text \<open>
  The runtime library computes the world vertices and does the clipping.  Its
  operations are parameters of the model, over any type \<open>'c\<close> of clipper states:
  \<open>clipStart(slot, clip)\<close>, \<open>clipEnd(slot)\<close>, \<open>clipEnd()\<close>, \<open>isClipping()\<close>,
  \<open>clipTriangles(vertices, triangles, uvs, 2)\<close> and the three buffers it fills.
\<close>

record 'c runtime =
  sizeof_render_command :: nat
  region_computeWorldVertices :: "Slot \<Rightarrow> RegionAttachment \<Rightarrow> float list"
  mesh_computeWorldVertices :: "Slot \<Rightarrow> MeshAttachment \<Rightarrow> float list"
  clipStart :: "Slot \<Rightarrow> ClippingAttachment \<Rightarrow> 'c \<Rightarrow> 'c"
  clipEnd_slot :: "Slot \<Rightarrow> 'c \<Rightarrow> 'c"
  clipEnd :: "'c \<Rightarrow> 'c"
  isClipping :: "'c \<Rightarrow> bool"
  clipTriangles :: "float list \<Rightarrow> 16 word list \<Rightarrow> float list \<Rightarrow> 'c \<Rightarrow> 'c"
  getClippedVertices :: "'c \<Rightarrow> float list"
  getClippedUVs :: "'c \<Rightarrow> float list"
  getClippedTriangles :: "'c \<Rightarrow> 16 word list"

text \<open>
  What the loop changes: the clipper, the arena and the list of commands built so
  far (\<open>renderCommand\<close> is its head and \<open>lastCommand\<close> its last node).
\<close>

record 'c render_state =
  clipper :: 'c
  allocator :: BlockAllocator
  renderCommand :: "spine_render_command list"

text \<open>\<open>memcpy\<close> of \<open>n\<close> elements out of a buffer: a fault if the buffer is shorter.\<close>

definition memcpy_from :: "'a list \<Rightarrow> int \<Rightarrow> fault + 'a list" where
  "memcpy_from src n =
     (if n < 0 \<or> int (length src) < n then Inl OutOfBoundsRead else Inr (take (nat n) src))"

text \<open>
  One channel of the packed colour:
  \<open>static_cast<uint8_t>(skeletonColor.c * slotColor.c * attachmentColor.c * 255)\<close>,
  the products taken from left to right in \<open>float\<close>.
\<close>

definition color_channel :: "float \<Rightarrow> float \<Rightarrow> float \<Rightarrow> fault + 8 word" where
  "color_channel sk sl ac =
     float_to_uint8 (float_mul (float_mul (float_mul sk sl) ac) (float_of_nat 255))"

text \<open>\<open>(a << 24) | (r << 16) | (g << 8) | b\<close>, as the 32 bits stored per vertex.\<close>

definition pack_color :: "8 word \<Rightarrow> 8 word \<Rightarrow> 8 word \<Rightarrow> 8 word \<Rightarrow> int32" where
  "pack_color ca cr cg cb =
     push_bit 24 (ucast ca) OR push_bit 16 (ucast cr) OR push_bit 8 (ucast cg) OR ucast cb"

definition vertex_color :: "Color \<Rightarrow> Color \<Rightarrow> Color \<Rightarrow> fault + int32" where
  "vertex_color skc slc atc =
     bind_fault (color_channel (Color_r skc) (Color_r slc) (Color_r atc)) (\<lambda>cr.
     bind_fault (color_channel (Color_g skc) (Color_g slc) (Color_g atc)) (\<lambda>cg.
     bind_fault (color_channel (Color_b skc) (Color_b slc) (Color_b atc)) (\<lambda>cb.
     bind_fault (color_channel (Color_a skc) (Color_a slc) (Color_a atc)) (\<lambda>ca.
       Inr (pack_color ca cr cg cb)))))"


text \<open>
  The second half of the loop body, for a region or mesh that is drawn: the
  colour, the clipping if a clip is open, the command with its arrays, its place
  at the end of the list, and \<open>clipEnd(slot)\<close>.
\<close>

definition emit_command ::
  "'c runtime \<Rightarrow> Color \<Rightarrow> Slot \<Rightarrow> Color \<Rightarrow> float list \<Rightarrow> int32 \<Rightarrow> float list \<Rightarrow>
   16 word list \<Rightarrow> int32 \<Rightarrow> int32 \<Rightarrow> 'c render_state \<Rightarrow> fault + 'c render_state" where
  "emit_command rt skc slot atc worldVertices verticesCount0 uvs0 indices0 indicesCount0
       pageIndex st =
     bind_fault (vertex_color skc (slot_color slot) atc) (\<lambda>color.
       let clipping = isClipping rt (clipper st);
           cl = (if clipping then clipTriangles rt worldVertices indices0 uvs0 (clipper st)
                 else clipper st);
           vertices = (if clipping then getClippedVertices rt cl else worldVertices);
           verticesCount = (if clipping
                            then word_of_nat (length (getClippedVertices rt cl) div 2)
                            else verticesCount0);
           uvs1 = (if clipping then getClippedUVs rt cl else uvs0);
           indices1 = (if clipping then getClippedTriangles rt cl else indices0);
           indicesCount = (if clipping then word_of_nat (length (getClippedTriangles rt cl))
                           else indicesCount0)
       in
     bind_fault (spine_render_command_create (sizeof_render_command rt) (allocator st)
                   verticesCount indicesCount
                   (cast_spine_blend_mode (SlotData_blendMode (slot_data slot))) pageIndex)
       (\<lambda>(al, cmd).
     bind_fault (memcpy_from vertices (sint (push_bit 1 verticesCount :: int32))) (\<lambda>ps.
     bind_fault (memcpy_from uvs1 (sint (push_bit 1 verticesCount :: int32))) (\<lambda>us.
       Inr (st\<lparr>clipper := clipEnd_slot rt slot cl,
               allocator := al,
               renderCommand := renderCommand st @
                 [cmd\<lparr>positions := ps, uvs := us,
                      colors := replicate (nat (sint verticesCount)) color,
                      indices := indices1\<rparr>]\<rparr>)))))"

definition quadIndices :: "16 word list" where
  "quadIndices = [0, 1, 2, 2, 3, 0]"

text \<open>The body of the loop for one slot of the draw order.\<close>

definition render_slot ::
  "'c runtime \<Rightarrow> Color \<Rightarrow> Slot \<Rightarrow> 'c render_state \<Rightarrow> fault + 'c render_state" where
  "render_slot rt skc slot st =
     (case slot_attachment slot of
        None \<Rightarrow> Inr st
      | Some att \<Rightarrow>
          if float_eq_zero (Color_a (slot_color slot)) \<or> \<not> slot_bone_active slot
          then Inr (st\<lparr>clipper := clipEnd_slot rt slot (clipper st)\<rparr>)
          else
            (case att of
               Region regionAttachment \<Rightarrow>
                 if float_eq_zero (Color_a (region_color regionAttachment))
                 then Inr (st\<lparr>clipper := clipEnd_slot rt slot (clipper st)\<rparr>)
                 else emit_command rt skc slot (region_color regionAttachment)
                        (region_computeWorldVertices rt slot regionAttachment) 4
                        (region_uvs regionAttachment) quadIndices 6
                        (region_page_index regionAttachment) st
             | Mesh mesh \<Rightarrow>
                 if float_eq_zero (Color_a (mesh_color mesh))
                 then Inr (st\<lparr>clipper := clipEnd_slot rt slot (clipper st)\<rparr>)
                 else emit_command rt skc slot (mesh_color mesh)
                        (mesh_computeWorldVertices rt slot mesh)
                        (word_of_nat (mesh_worldVerticesLength mesh div 2))
                        (mesh_uvs mesh) (mesh_triangles mesh)
                        (word_of_nat (length (mesh_triangles mesh)))
                        (mesh_page_index mesh) st
             | Clipping clip \<Rightarrow> Inr (st\<lparr>clipper := clipStart rt slot clip (clipper st)\<rparr>)
             | OtherAttachment \<Rightarrow> Inr st))"

text \<open>
  The loop: \<open>i\<close> runs over the positions of the slot array and reads the draw
  order at \<open>i\<close>.
\<close>

fun render_loop ::
  "'c runtime \<Rightarrow> Skeleton \<Rightarrow> nat list \<Rightarrow> 'c render_state \<Rightarrow> fault + 'c render_state" where
  "render_loop rt sk [] st = Inr st"
| "render_loop rt sk (i # rest) st =
     bind_fault (Vector_at (drawOrder sk) i) (\<lambda>slot.
     bind_fault (render_slot rt (skeleton_color sk) slot st) (\<lambda>st'.
       render_loop rt sk rest st'))"

text \<open>
  \<open>struct _spine_skeleton_drawable\<close>, without the animation state, which
  \<open>render\<close> does not touch.
\<close>

record 'c spine_skeleton_drawable =
  skeleton :: "Skeleton option"
  clipping :: 'c
  drawable_renderCommand :: "spine_render_command list"
  drawable_allocator :: BlockAllocator

text \<open>
  \<open>spine_skeleton_drawable_render\<close> returns the head of the list of commands (the
  empty list is \<open>nullptr\<close>) and leaves the drawable changed.
\<close>

definition spine_skeleton_drawable_render ::
  "'c runtime \<Rightarrow> 'c spine_skeleton_drawable option \<Rightarrow>
   fault + 'c spine_skeleton_drawable option \<times> spine_render_command list" where
  "spine_skeleton_drawable_render rt drawable =
     (case drawable of
        None \<Rightarrow> Inr (None, [])
      | Some d \<Rightarrow>
          (case skeleton d of
             None \<Rightarrow> Inr (Some d, [])
           | Some sk \<Rightarrow>
               bind_fault
                 (render_loop rt sk [0 ..< length (slots sk)]
                    \<lparr>clipper = clipping d,
                     allocator = compress (drawable_allocator d),
                     renderCommand = []\<rparr>)
                 (\<lambda>st. Inr (Some (d\<lparr>clipping := clipEnd rt (clipper st),
                                      drawable_renderCommand := renderCommand st,
                                      drawable_allocator := allocator st\<rparr>),
                             renderCommand st))))"

text \<open>
  Modelled from the spec: the bookkeeping of the runtime's 2D clipper
  (\<open>SkeletonClipping\<close>, not part of the facade), for running the loop on concrete
  draw orders.  A clipping attachment opens (or replaces) the active clip region;
  the region stops applying at the attachment's end slot, where \<open>clipEnd(slot)\<close>
  closes it; \<open>clipEnd()\<close> closes whatever is open.  The state is the open
  clipping attachment, if any.  The geometry is a stand-in: world vertices are all
  zero, and an open clip region lets nothing through, so that the clipped buffers
  are empty.
\<close>

definition spec_clipper :: "ClippingAttachment option runtime" where
  "spec_clipper =
     \<lparr>sizeof_render_command = 64,
      region_computeWorldVertices = (\<lambda>slot ra. replicate 8 0),
      mesh_computeWorldVertices = (\<lambda>slot m. replicate (mesh_worldVerticesLength m) 0),
      clipStart = (\<lambda>slot clip c. Some clip),
      clipEnd_slot = (\<lambda>slot c.
         case c of None \<Rightarrow> None
         | Some clip \<Rightarrow> if endSlot clip = Some (slot_data slot) then None else Some clip),
      clipEnd = (\<lambda>c. None),
      isClipping = (\<lambda>c. c \<noteq> None),
      clipTriangles = (\<lambda>vs ts us c. c),
      getClippedVertices = (\<lambda>c. []),
      getClippedUVs = (\<lambda>c. []),
      getClippedTriangles = (\<lambda>c. [])\<rparr>"



section \<open>A sample skeleton\<close>

text \<open>
  Three slots in draw order: a clipping attachment whose clip ends at the second
  slot, a second slot without attachment, and a region tinted (0.5, 0.5, 0.5, 1.0).
  Skeleton and slots are tinted (1, 1, 1, 1).  \<open>0x3F800000\<close> is 1.0 and
  \<open>0x3F000000\<close> is 0.5.
\<close>

definition white :: Color where
  "white = \<lparr>Color_r = 0x3F800000, Color_g = 0x3F800000, Color_b = 0x3F800000,
            Color_a = 0x3F800000\<rparr>"

definition half_grey :: Color where
  "half_grey = \<lparr>Color_r = 0x3F000000, Color_g = 0x3F000000, Color_b = 0x3F000000,
                Color_a = 0x3F800000\<rparr>"

definition transparent_white :: Color where
  "transparent_white = \<lparr>Color_r = 0x3F800000, Color_g = 0x3F800000, Color_b = 0x3F800000,
                        Color_a = 0\<rparr>"

definition sample_region :: Attachment where
  "sample_region =
     Region \<lparr>region_color = half_grey,
             region_uvs = [0, 0, 0, 0x3F800000, 0x3F800000, 0x3F800000, 0x3F800000, 0],
             region_page_index = 0\<rparr>"

definition sample_clip :: ClippingAttachment where
  "sample_clip =
     \<lparr>endSlot = Some \<lparr>SlotData_index = 1, SlotData_blendMode = BlendMode_Normal\<rparr>\<rparr>"

definition clip_slot :: Slot where
  "clip_slot =
     \<lparr>slot_data = \<lparr>SlotData_index = 0, SlotData_blendMode = BlendMode_Normal\<rparr>,
      slot_color = white, slot_bone_active = True,
      slot_attachment = Some (Clipping sample_clip)\<rparr>"

definition empty_slot :: Slot where
  "empty_slot =
     \<lparr>slot_data = \<lparr>SlotData_index = 1, SlotData_blendMode = BlendMode_Normal\<rparr>,
      slot_color = white, slot_bone_active = True,
      slot_attachment = None\<rparr>"

definition faded_slot :: Slot where
  "faded_slot =
     \<lparr>slot_data = \<lparr>SlotData_index = 1, SlotData_blendMode = BlendMode_Normal\<rparr>,
      slot_color = transparent_white, slot_bone_active = True,
      slot_attachment = Some sample_region\<rparr>"

definition region_slot :: Slot where
  "region_slot =
     \<lparr>slot_data = \<lparr>SlotData_index = 2, SlotData_blendMode = BlendMode_Normal\<rparr>,
      slot_color = white, slot_bone_active = True,
      slot_attachment = Some sample_region\<rparr>"

definition sample_drawable :: "Slot list \<Rightarrow> ClippingAttachment option spine_skeleton_drawable" where
  "sample_drawable order =
     \<lparr>skeleton = Some \<lparr>slots = order, drawOrder = order, skeleton_color = white\<rparr>,
      clipping = None,
      drawable_renderCommand = [],
      drawable_allocator = BlockAllocator_new 2048\<rparr>"

text \<open>
  The command that drawing the region alone produces, and the drawable afterwards:
  the five allocations of the command take 64 + 32 + 32 + 16 + 16 bytes.
\<close>

definition sample_command :: spine_render_command where
  "sample_command =
     \<lparr>positions = replicate 8 0,
      uvs = [0, 0, 0, 0x3F800000, 0x3F800000, 0x3F800000, 0x3F800000, 0],
      colors = replicate 4 0xFF7F7F7F,
      numVertices = 4,
      indices = [0, 1, 2, 2, 3, 0],
      numIndices = 6,
      atlasPage = 0,
      blendMode = SPINE_BLEND_MODE_NORMAL\<rparr>"

definition sample_rendered :: "ClippingAttachment option spine_skeleton_drawable" where
  "sample_rendered =
     \<lparr>skeleton = Some \<lparr>slots = [region_slot], drawOrder = [region_slot],
                        skeleton_color = white\<rparr>,
      clipping = None,
      drawable_renderCommand = [sample_command],
      drawable_allocator =
        \<lparr>initialBlockSize = 2048, blocks = [\<lparr>size_b = 2048, allocated = 160\<rparr>]\<rparr>\<rparr>"

section \<open>The arena after compression\<close>

lemma compress_loop_sum:
  "compress_loop bs acc = acc + sum_list (map size_b bs)"
  by (induction bs arbitrary: acc) (simp_all add: add.assoc)

lemma sum_list_size_of_sint:
  "sum_list (map size_b bs) = word_of_int (sum_list (map (\<lambda>b. sint (size_b b)) bs))"
  by (induction bs) simp_all

lemma sint_word_of_int_in_range:
  "- (2 ^ 31) \<le> k \<Longrightarrow> k < 2 ^ 31 \<Longrightarrow> sint (word_of_int k :: int32) = k"
  by (simp add: sint_sbintrunc' signed_take_bit_int_eq_self)

lemma sint_MathUtil_max: "sint (MathUtil_max a b) = max (sint a) (sint b)"
  by (auto simp add: MathUtil_max_def word_sless_alt max_def)

text \<open>
  What \<open>compress()\<close> leaves in every state: one block with the mark at zero, sized
  by the sum that the loop computes, which is a sum of \<open>int\<close>s and wraps around.
\<close>

lemma compress_blocks:
  "blocks (compress al) =
     [\<lparr>size_b = MathUtil_max (initialBlockSize al) (sum_list (map size_b (blocks al))),
       allocated = 0\<rparr>]"
  by (simp add: compress_def newBlock_def compress_loop_sum Let_def)

text \<open>
  C5.  The claim as the code has it: in every state of the allocator whose block
  sizes add up to a value of an \<open>int\<close>, \<open>compress()\<close> leaves exactly one block;
  its size is the larger of that sum and the initial block size, and its allocation
  mark is zero.
\<close>

theorem compress_single_block:
  assumes "- (2 ^ 31) \<le> sum_list (map (\<lambda>b. sint (size_b b)) (blocks al))"
    and "sum_list (map (\<lambda>b. sint (size_b b)) (blocks al)) < 2 ^ 31"
  shows "map (\<lambda>b. (sint (size_b b), allocated b)) (blocks (compress al)) =
           [(max (sint (initialBlockSize al))
                 (sum_list (map (\<lambda>b. sint (size_b b)) (blocks al))), 0)]"
proof -
  have "sint (sum_list (map size_b (blocks al))) =
          sum_list (map (\<lambda>b. sint (size_b b)) (blocks al))"
    using assms by (simp add: sum_list_size_of_sint sint_word_of_int_in_range)
  then show ?thesis
    by (simp add: compress_blocks sint_MathUtil_max)
qed

text \<open>
  An arena that grew to three blocks of 2048, 4096 and 2048 bytes, with an initial
  size of 2048: one block of 8192 bytes is left.
\<close>

theorem compress_single_block_witness:
  "map (\<lambda>b. (sint (size_b b), allocated b))
     (blocks (compress \<lparr>initialBlockSize = 2048,
                        blocks = [\<lparr>size_b = 2048, allocated = 2040\<rparr>,
                                  \<lparr>size_b = 4096, allocated = 4096\<rparr>,
                                  \<lparr>size_b = 2048, allocated = 16\<rparr>]\<rparr>)) =
     [(8192, 0)]"
  using compress_single_block
    [of "\<lparr>initialBlockSize = 2048,
          blocks = [\<lparr>size_b = 2048, allocated = 2040\<rparr>,
                    \<lparr>size_b = 4096, allocated = 4096\<rparr>,
                    \<lparr>size_b = 2048, allocated = 16\<rparr>]\<rparr>"]
  by simp

text \<open>
  C5 as stated fails where the sum is no \<open>int\<close>.  Two requests for \<open>2^28\<close>
  \<open>float\<close>s from a fresh arena of 2048 bytes leave blocks of 2048, \<open>2^30\<close> and
  \<open>2^30\<close> bytes.  Their sizes add up to \<open>2^31 + 2048\<close>; the loop arrives at
  \<open>2048 - 2^31\<close>, and \<open>compress()\<close> leaves a block of 2048 bytes, not of
  \<open>2^31 + 2048\<close>.
\<close>

theorem compress_overflow_counterexample:
  "bind_fault (allocate 4 (2 ^ 28) (BlockAllocator_new 2048)) (allocate 4 (2 ^ 28)) =
     Inr \<lparr>initialBlockSize = 2048,
          blocks = [\<lparr>size_b = 2048, allocated = 0\<rparr>,
                    \<lparr>size_b = 2 ^ 30, allocated = 2 ^ 30\<rparr>,
                    \<lparr>size_b = 2 ^ 30, allocated = 2 ^ 30\<rparr>]\<rparr> \<and>
   blocks (compress \<lparr>initialBlockSize = 2048,
          blocks = [\<lparr>size_b = 2048, allocated = 0\<rparr>,
                    \<lparr>size_b = 2 ^ 30, allocated = 2 ^ 30\<rparr>,
                    \<lparr>size_b = 2 ^ 30, allocated = 2 ^ 30\<rparr>]\<rparr>) =
     [\<lparr>size_b = 2048, allocated = 0\<rparr>] \<and>
   sint (2048 :: int32) = 2048 \<and>
   max (sint (2048 :: int32))
       (sint (2048 :: int32) + sint (2 ^ 30 :: int32) + sint (2 ^ 30 :: int32)) = 2147485696"
  by (simp add: allocate_def allocate_bytes_def bind_fault_def BlockAllocator_new_def newBlock_def
      MathUtil_max_def Block_canFit_def Block_free_def Block_allocate_def Let_def compress_def
      word_sle_eq word_sless_alt)

section \<open>The loaders and the Y-down flag\<close>

text \<open>
  C4.  Whatever the atlas handle, its parsed atlas, the data argument, the length
  and the outcome of parsing, the process-wide Y-down flag is true after either
  loader has returned, whatever it was before.
\<close>

theorem load_sets_yDown:
  "Bone_isYDown (fst (spine_skeleton_data_load_json readJson ps a txt)) \<and>
   Bone_isYDown (fst (spine_skeleton_data_load_binary readBinary ps a bytes len))"
  by (simp add: spine_skeleton_data_load_json_def spine_skeleton_data_load_binary_def
      Bone_isYDown_def Bone_setYDown_def Let_def split: option.splits prod.splits)

text \<open>
  The flag set to false through the facade, then each loader called with an absent
  atlas: the flag reads true (\<open>-1\<close>) afterwards.
\<close>

theorem load_sets_yDown_witness:
  "spine_bone_get_is_y_down
     (fst (spine_skeleton_data_load_json (\<lambda>p t. (None :: nat option, []))
             (spine_bone_set_is_y_down 0 \<lparr>yDown = True\<rparr>)
             (None :: nat spine_atlas option) None)) = - 1 \<and>
   spine_bone_get_is_y_down
     (fst (spine_skeleton_data_load_binary (\<lambda>p b n. (None :: nat option, []))
             (spine_bone_set_is_y_down 0 \<lparr>yDown = True\<rparr>)
             (None :: nat spine_atlas option) None 0)) = - 1 \<and>
   spine_bone_get_is_y_down (spine_bone_set_is_y_down 0 \<lparr>yDown = True\<rparr>) = 0"
  using load_sets_yDown
    [of "\<lambda>p t. (None :: nat option, [])" "spine_bone_set_is_y_down 0 \<lparr>yDown = True\<rparr>"
        "None :: nat spine_atlas option" None "\<lambda>p b n. (None :: nat option, [])" None 0]
  by (simp add: spine_bone_get_is_y_down_def spine_bone_set_is_y_down_def Bone_setYDown_def
      Bone_isYDown_def)

text \<open>
  C6.  The binary loader, given an absent atlas handle, an atlas without a parsed
  atlas object, an absent data pointer or a length that is not positive, returns a
  result handle that is present and whose data and error fields are both absent.
  A parse that was attempted and left an error text returns that text in the error
  field.
\<close>

theorem load_binary_bad_input:
  "(a = None \<or> (\<exists>r. a = Some r \<and> atlas r = None) \<or> bytes = None \<or> len \<le>s 0 \<longrightarrow>
      snd (spine_skeleton_data_load_binary readBinary ps a bytes len) =
        Some \<lparr>skeletonData = None, error = None\<rparr>) \<and>
   (a = Some r \<and> atlas r = Some parsed \<and> bytes = Some bs \<and> 0 <s len \<and>
    readBinary parsed bs len = (None, msg) \<and> msg \<noteq> [] \<longrightarrow>
      snd (spine_skeleton_data_load_binary readBinary ps a bytes len) =
        Some \<lparr>skeletonData = None, error = Some msg\<rparr>)"
  by (auto simp add: spine_skeleton_data_load_binary_def calloc_skeleton_data_result_def
      Let_def word_sle_eq word_sless_alt split: option.splits)

theorem load_binary_bad_input_witness:
  "snd (spine_skeleton_data_load_binary (\<lambda>p b n. (Some (1::nat), []))
         \<lparr>yDown = False\<rparr>
         (Some \<lparr>atlas = Some (0::nat), imagePaths = [], numImagePaths = 0,
                atlas_error = None\<rparr>)
         (Some [1, 2, 3]) 0) =
     Some \<lparr>skeletonData = None, error = None\<rparr> \<and>
   snd (spine_skeleton_data_load_binary (\<lambda>p b n. (None :: nat option, ''bad header''))
         \<lparr>yDown = False\<rparr>
         (Some \<lparr>atlas = Some (0::nat), imagePaths = [], numImagePaths = 0,
                atlas_error = None\<rparr>)
         (Some [1, 2, 3]) 3) =
     Some \<lparr>skeletonData = None, error = Some ''bad header''\<rparr>"
  using load_binary_bad_input
    [of "Some \<lparr>atlas = Some (0::nat), imagePaths = [], numImagePaths = 0,
                atlas_error = None\<rparr>"
        "Some [1, 2, 3]" 0 "\<lambda>p b n. (Some (1::nat), [])" "\<lparr>yDown = False\<rparr>"]
    load_binary_bad_input
    [of "Some \<lparr>atlas = Some (0::nat), imagePaths = [], numImagePaths = 0,
                atlas_error = None\<rparr>"
        "Some [1, 2, 3]" 3 "\<lambda>p b n. (None :: nat option, ''bad header'')" "\<lparr>yDown = False\<rparr>"
        "\<lparr>atlas = Some (0::nat), imagePaths = [], numImagePaths = 0, atlas_error = None\<rparr>"
        0 "[1, 2, 3]" "''bad header''"]
  by (simp add: word_sle_eq word_sless_alt)

section \<open>The event buffer\<close>

text \<open>
  C10.  The event-type accessor returns a value for every handle and every index
  (no read leaves the buffer), and that value is the dispose kind whenever the
  handle is absent, the index is negative, or the index is not below the number
  of buffered events.
\<close>

theorem get_event_type_total_dispose:
  "(\<exists>t. spine_animation_state_events_get_event_type evs index = Inr t) \<and>
   (evs = None \<or> index <s 0 \<or> (\<exists>l. evs = Some l \<and> int (length (events l)) \<le> sint index) \<longrightarrow>
      spine_animation_state_events_get_event_type evs index = Inr SPINE_EVENT_TYPE_DISPOSE)"
  by (auto simp add: spine_animation_state_events_get_event_type_def Vector_at_def
      word_sless_alt split: option.splits)

theorem get_event_type_total_dispose_witness:
  "spine_animation_state_events_get_event_type
     (Some \<lparr>events = [\<lparr>type = EventType_Start, entry = Some (0::nat), event = (None :: nat option)\<rparr>]\<rparr>)
     1 = Inr SPINE_EVENT_TYPE_DISPOSE \<and>
   spine_animation_state_events_get_event_type
     (Some \<lparr>events = [\<lparr>type = EventType_Start, entry = Some (0::nat), event = (None :: nat option)\<rparr>]\<rparr>)
     (- 1) = Inr SPINE_EVENT_TYPE_DISPOSE \<and>
   spine_animation_state_events_get_event_type
     (None :: (nat, nat) EventListener option) 0 = Inr SPINE_EVENT_TYPE_DISPOSE"
  using get_event_type_total_dispose
    [of "Some \<lparr>events = [\<lparr>type = EventType_Start, entry = Some (0::nat), event = (None :: nat option)\<rparr>]\<rparr>" 1]
    get_event_type_total_dispose
    [of "Some \<lparr>events = [\<lparr>type = EventType_Start, entry = Some (0::nat), event = (None :: nat option)\<rparr>]\<rparr>" "- 1"]
    get_event_type_total_dispose [of "None :: (nat, nat) EventListener option" 0]
  by (simp add: word_sless_alt)

section \<open>Accessors that miss a case\<close>

text \<open>
  Where the two accessors below do what is expected of them: the bounds of a
  skeleton that is present are the four values that \<open>Skeleton::getBounds\<close> assigns,
  and the image path of an absent atlas is absent, that of a position of the array
  is the path stored there.
\<close>

lemma get_bounds_present_skeleton:
  "getBounds s = (bx, by, bw, bh) \<Longrightarrow>
     spine_skeleton_get_bounds getBounds (Some s) =
       Some \<lparr>bounds_x = Some bx, bounds_y = Some by,
             bounds_width = Some bw, bounds_height = Some bh\<rparr>"
  by (simp add: spine_skeleton_get_bounds_def malloc_spine_bounds_def)

lemma get_image_path_absent_or_in_range:
  "spine_atlas_get_image_path None index = Inr None"
  "0 \<le> sint index \<Longrightarrow> nat (sint index) < length (imagePaths r) \<Longrightarrow>
     spine_atlas_get_image_path (Some r) index = Inr (Some (imagePaths r ! nat (sint index)))"
  by (simp_all add: spine_atlas_get_image_path_def)

text \<open>
  C7.  For an absent skeleton the bounds handle is returned as \<open>malloc\<close> left it:
  no field has been written, so none of them is known to be zero.
\<close>

theorem get_bounds_absent_skeleton_unwritten:
  "spine_skeleton_get_bounds (\<lambda>s :: nat. (0, 0, 0, 0)) None =
     Some \<lparr>bounds_x = None, bounds_y = None, bounds_width = None, bounds_height = None\<rparr> \<and>
   spine_bounds_get_x (spine_skeleton_get_bounds (\<lambda>s :: nat. (0, 0, 0, 0)) None) \<noteq> Some 0"
  by (simp add: spine_skeleton_get_bounds_def malloc_spine_bounds_def spine_bounds_get_x_def)

text \<open>
  C8.  An atlas with one page: index 0 gives its path, and index 1 or -1 reads
  outside the array of paths instead of giving an absent path.
\<close>

theorem get_image_path_out_of_range:
  "spine_atlas_get_num_image_paths
     (Some \<lparr>atlas = Some (0::nat), imagePaths = [''skeleton.png''], numImagePaths = 1,
            atlas_error = None\<rparr>) = 1 \<and>
   spine_atlas_get_image_path
     (Some \<lparr>atlas = Some (0::nat), imagePaths = [''skeleton.png''], numImagePaths = 1,
            atlas_error = None\<rparr>) 0 = Inr (Some ''skeleton.png'') \<and>
   spine_atlas_get_image_path
     (Some \<lparr>atlas = Some (0::nat), imagePaths = [''skeleton.png''], numImagePaths = 1,
            atlas_error = None\<rparr>) 1 = Inl OutOfBoundsRead \<and>
   spine_atlas_get_image_path
     (Some \<lparr>atlas = Some (0::nat), imagePaths = [''skeleton.png''], numImagePaths = 1,
            atlas_error = None\<rparr>) (- 1) = Inl OutOfBoundsRead"
  by (simp add: spine_atlas_get_image_path_def spine_atlas_get_num_image_paths_def)

text \<open>
  C9.  The accessor for the world rotation Y returns what
  \<open>Bone::getWorldToLocalRotationY\<close> gives, not \<open>Bone::getWorldRotationY\<close>, while the
  accessor for X returns \<open>Bone::getWorldRotationX\<close>.  The bone here is a root bone
  with the identity as world matrix, given by what its four methods return: world
  rotation X is 0 degrees and world rotation Y is 90 degrees (bit pattern
  \<open>0x42B40000\<close>); both rotations relative to the parent are 0.
\<close>

theorem world_rotation_y_calls_world_to_local:
  "spine_bone_get_world_rotation_y
     \<lparr>getWorldRotationX = fst, getWorldRotationY = fst \<circ> snd,
      getWorldToLocalRotationX = fst \<circ> snd \<circ> snd,
      getWorldToLocalRotationY = snd \<circ> snd \<circ> snd\<rparr>
     (Some (0, 0x42B40000, 0, 0)) = 0 \<and>
   getWorldRotationY
     \<lparr>getWorldRotationX = fst, getWorldRotationY = fst \<circ> snd,
      getWorldToLocalRotationX = fst \<circ> snd \<circ> snd,
      getWorldToLocalRotationY = snd \<circ> snd \<circ> snd\<rparr>
     (0, 0x42B40000, 0, 0 :: float) = 0x42B40000 \<and>
   spine_bone_get_world_rotation_x M (Some b) = getWorldRotationX M b \<and>
   spine_bone_get_world_rotation_y M (Some b) = getWorldToLocalRotationY M b"
  by (simp add: spine_bone_get_world_rotation_y_def spine_bone_get_world_rotation_x_def)

section \<open>Enumerating a skin\<close>

text \<open>
  The counting loop tests \<open>hasNext()\<close> again and again on an iterator that it
  never advances: it returns only if the first test fails.
\<close>

lemma count_entries_returns_only_when_empty:
  assumes "count_entries mapEntries n = Some k"
  shows "\<not> hasNext mapEntries"
proof (rule count_entries.raw_induct [where P = "\<lambda>it n y. \<not> hasNext it", OF _ assms])
  fix f :: "'a Entries \<Rightarrow> int32 \<Rightarrow> int32 option" and it n y
  assume IH: "\<And>it' n' y'. f it' n' = Some y' \<Longrightarrow> \<not> hasNext it'"
    and eq: "(if hasNext it then f it (n + 1) else Some n) = Some y"
  show "\<not> hasNext it"
  proof
    assume h: "hasNext it"
    with eq have "f it (n + 1) = Some y" by simp
    from IH [OF this] h show False by simp
  qed
qed

lemma count_entries_diverges:
  "hasNext mapEntries \<Longrightarrow> count_entries mapEntries n = None"
  using count_entries_returns_only_when_empty [of mapEntries n] by (cases "count_entries mapEntries n") auto

lemma get_entries_nonempty_diverges:
  "attachments s \<noteq> [] \<Longrightarrow> spine_skin_get_entries (Some s) = None"
  by (simp add: spine_skin_get_entries_def count_entries_diverges hasNext_def getAttachments_def)

lemma get_entries_empty:
  "attachments s = [] \<Longrightarrow>
     spine_skin_get_entries (Some s) = Some (Inr (Some \<lparr>numEntries = 0, entries = []\<rparr>))"
  by (simp add: spine_skin_get_entries_def count_entries.simps hasNext_def getAttachments_def)

text \<open>
  C2.  For a skin that holds one triple, the counting loop never calls \<open>next()\<close>
  and the call does not return.
\<close>

theorem get_entries_one_entry_diverges:
  "spine_skin_get_entries
     (Some \<lparr>attachments =
        [\<lparr>Entry_slotIndex = 0, Entry_name = ''head'', Entry_attachment = Some (7::nat)\<rparr>]\<rparr>) = None"
  by (simp add: spine_skin_get_entries_def count_entries_diverges hasNext_def getAttachments_def)

section \<open>The render loop and the clipper\<close>


lemmas run_defs =
  sample_drawable_def region_slot_def faded_slot_def empty_slot_def clip_slot_def sample_clip_def
  sample_region_def white_def half_grey_def transparent_white_def spec_clipper_def
  sample_command_def sample_rendered_def
  spine_skeleton_drawable_render_def render_slot_def emit_command_def quadIndices_def
  vertex_color_def pack_color_def color_channel_def memcpy_from_def
  spine_render_command_create_def bind_fault_def allocate_def allocate_bytes_def
  compress_def newBlock_def MathUtil_max_def BlockAllocator_new_def Block_canFit_def Block_free_def
  Block_allocate_def Vector_at_def
  float_to_uint8_def float_mul_def float_of_nat_def float_round_def float_sign_def
  float_exponent_def float_fraction_def float_significand_def float_scale_def
  float_is_nan_def float_is_infinity_def float_eq_zero_def bitlen.simps Let_def
  word_sle_eq word_sless_alt

text \<open>
  C1.  The claim as the code has it: the zero-alpha or inactive-bone branch calls
  \<open>clipEnd(slot)\<close> for the slot it skips, whatever the clipper does with it, and
  emits nothing; the branch for a slot without attachment comes first and goes on
  to the next slot without a call to the clipper, so that the clipper, the arena
  and the commands are as before.
\<close>

theorem render_slot_early_branches:
  "(slot_attachment slot = None \<longrightarrow> render_slot rt skc slot st = Inr st) \<and>
   (slot_attachment slot \<noteq> None \<and>
    (float_eq_zero (Color_a (slot_color slot)) \<or> \<not> slot_bone_active slot) \<longrightarrow>
      render_slot rt skc slot st = Inr (st\<lparr>clipper := clipEnd_slot rt slot (clipper st)\<rparr>))"
  by (auto simp add: render_slot_def)

text \<open>
  Both branches on the sample slots, with the clip of the sample open: the slot
  without attachment leaves it open, the faded slot closes it.
\<close>

theorem render_slot_early_branches_witness:
  "render_slot spec_clipper white empty_slot
     \<lparr>clipper = Some sample_clip, allocator = BlockAllocator_new 2048, renderCommand = []\<rparr> =
     Inr \<lparr>clipper = Some sample_clip, allocator = BlockAllocator_new 2048, renderCommand = []\<rparr> \<and>
   render_slot spec_clipper white faded_slot
     \<lparr>clipper = Some sample_clip, allocator = BlockAllocator_new 2048, renderCommand = []\<rparr> =
     Inr \<lparr>clipper = None, allocator = BlockAllocator_new 2048, renderCommand = []\<rparr>"
  using render_slot_early_branches
      [of empty_slot spec_clipper white
          "\<lparr>clipper = Some sample_clip, allocator = BlockAllocator_new 2048, renderCommand = []\<rparr>"]
    render_slot_early_branches
      [of faded_slot spec_clipper white
          "\<lparr>clipper = Some sample_clip, allocator = BlockAllocator_new 2048, renderCommand = []\<rparr>"]
  by (simp add: empty_slot_def faded_slot_def transparent_white_def float_eq_zero_def
      float_exponent_def float_fraction_def spec_clipper_def sample_clip_def)

text \<open>
  C1 as stated fails.  The clip of the sample ends at the second slot.  When that
  slot has no attachment the loop does not do what \<open>clipEnd(slot)\<close> would do: the
  clip stays open, and in the draw order clip, empty, region the region is still
  clipped (the sample clipper clips everything away: 0 vertices).  When the second
  slot has an attachment and is faded, the clip is closed there and the region
  keeps its 4 vertices.
\<close>

theorem no_attachment_leaves_clip_open:
  "render_slot spec_clipper white empty_slot
     \<lparr>clipper = Some sample_clip, allocator = BlockAllocator_new 2048, renderCommand = []\<rparr> \<noteq>
     Inr \<lparr>clipper = clipEnd_slot spec_clipper empty_slot (Some sample_clip),
          allocator = BlockAllocator_new 2048, renderCommand = []\<rparr> \<and>
   isClipping spec_clipper (Some sample_clip) \<and>
   \<not> isClipping spec_clipper (clipEnd_slot spec_clipper empty_slot (Some sample_clip)) \<and>
   map_sum id (map numVertices \<circ> snd)
     (spine_skeleton_drawable_render spec_clipper
        (Some (sample_drawable [clip_slot, empty_slot, region_slot]))) = Inr [0] \<and>
   map_sum id (map numVertices \<circ> snd)
     (spine_skeleton_drawable_render spec_clipper
        (Some (sample_drawable [clip_slot, faded_slot, region_slot]))) = Inr [4]"
  by (simp add: run_defs)

section \<open>Packed vertex colours\<close>















end
